theory Spec2Isabelle
  imports Complex_Main
begin

section \<open>Leja and Gauss-Radau quadrature of chaospy: a shallow embedding\<close>

text \<open>
  The theory embeds \<^verbatim>\<open>chaospy/quad/collection/leja.py\<close> and
  \<^verbatim>\<open>chaospy/quad/collection/gauss_radau.py\<close>. Floating-point numbers are
  idealised as \<^typ>\<open>real\<close>. Everything the two files import (the bounded
  minimiser, the linear-algebra routines, the recurrence provider, the
  distribution's methods) is a parameter: a field of the record \<open>externals\<close> or of the
  record \<open>marginal\<close>. An exception is a value \<open>Inl e\<close> of a sum type. The arrays that
  \<^verbatim>\<open>radau_jakobi\<close> reads and writes are cells of an explicit store.
\<close>

subsection \<open>Errors, orders, distributions\<close>

datatype linalg_message =
    SingularMatrix
  | IllegalRadauFixedPoint real  \<comment> \<open>\<^verbatim>\<open>"Illegal Radau fixed point: %s" % fixed_point.item()\<close>\<close>

datatype error =
    DependencyError
  | NotImplementedError
  | LinAlgError linalg_message
  | IndexError
  | TypeError
  | ValueError
  | AttributeError
  | OtherError string

text \<open>
  The \<^verbatim>\<open>order\<close> argument of \<^verbatim>\<open>quad_leja\<close> is an untyped Python value. Three shapes
  are modelled: a Python \<^verbatim>\<open>int\<close>, an integer scalar that is not an instance of \<^verbatim>\<open>int\<close>
  (a \<^verbatim>\<open>numpy.int64\<close>), and a sequence of orders.
\<close>

datatype py_order = PyInt int | NpInt int | OrderSeq "py_order list"

text \<open>\<^verbatim>\<open>isinstance(order, int)\<close>\<close>

fun isinstance_int :: "py_order \<Rightarrow> bool" where
  "isinstance_int (PyInt n) = True"
| "isinstance_int (NpInt n) = False"
| "isinstance_int (OrderSeq os) = False"

text \<open>\<^verbatim>\<open>int(order)\<close>: a sequence has no integer value.\<close>

fun py_int :: "py_order \<Rightarrow> error + int" where
  "py_int (PyInt n) = Inr n"
| "py_int (NpInt n) = Inr n"
| "py_int (OrderSeq os) = Inl TypeError"

text \<open>
  \<^verbatim>\<open>order[i]\<close>: a sequence is indexed (out of range raises), a numpy scalar
  raises \<^verbatim>\<open>IndexError\<close> (invalid index to scalar variable), a Python \<^verbatim>\<open>int\<close> is
  not subscriptable.
\<close>

fun getitem :: "py_order \<Rightarrow> nat \<Rightarrow> error + py_order" where
  "getitem (OrderSeq os) i = (if i < length os then Inr (os ! i) else Inl IndexError)"
| "getitem (NpInt n) i = Inl IndexError"
| "getitem (PyInt n) i = Inl TypeError"

text \<open>
  A one-dimensional distribution, with the three methods the code calls:
  \<^verbatim>\<open>dist.range()\<close>, \<^verbatim>\<open>dist.mom(k)\<close> and \<^verbatim>\<open>dist.pdf(x)\<close>.
\<close>

record marginal =
  range_dist :: "real \<times> real"
  mom :: "nat \<Rightarrow> real"
  pdf :: "real \<Rightarrow> real"

text \<open>
  A distribution has at least one dimension: \<open>Dist m ms\<close> has the marginals \<open>m # ms\<close>.
  \<^verbatim>\<open>len(dist)\<close> is their number, iterating over it (or indexing it) yields them.
\<close>

datatype distribution = Dist marginal "marginal list"

fun marginals :: "distribution \<Rightarrow> marginal list" where
  "marginals (Dist m ms) = m # ms"

fun len :: "distribution \<Rightarrow> nat" where
  "len (Dist m ms) = Suc (length ms)"

fun first_marginal :: "distribution \<Rightarrow> marginal" where
  "first_marginal (Dist m ms) = m"

text \<open>Recurrence coefficients: \<^verbatim>\<open>coeffs[0]\<close> (alpha) and \<^verbatim>\<open>coeffs[1]\<close> (beta).\<close>

type_synonym coeffs = "real list \<times> real list"

text \<open>A polynomial basis, by what \<^verbatim>\<open>poly(nodes)\<close> returns: one row for each polynomial.\<close>

type_synonym polynomials = "real list \<Rightarrow> real list list"

record externals =
  fminbound :: "(real \<Rightarrow> real) \<Rightarrow> real \<Rightarrow> real \<Rightarrow> error + (real \<times> real)"
  get_dependencies :: "marginal list \<Rightarrow> bool"
  analytical_stieljes :: "int \<Rightarrow> marginal \<Rightarrow> error + polynomials"
  construct_quadrature :: "int \<Rightarrow> marginal \<Rightarrow> error + (real list list \<times> real list)"
  discretized_stieltjes :: "int \<Rightarrow> real list list \<Rightarrow> real list \<Rightarrow> error + polynomials"
  linalg_inv :: "real list list \<Rightarrow> error + real list list"
  solve_banded :: "real list list \<Rightarrow> real list \<Rightarrow> error + real list"
  construct_recurrence_coefficients ::
    "int \<Rightarrow> distribution \<Rightarrow> string \<Rightarrow> int \<Rightarrow> string \<Rightarrow> error + coeffs list"
  coefficients_to_quadrature :: "coeffs list \<Rightarrow> error + (real list list \<times> real list list)"

subsection \<open>List comprehensions that may raise\<close>

text \<open>
  \<^verbatim>\<open>[f(x) for x in xs]\<close> evaluates left to right and stops at the first exception.
\<close>

fun list_comp :: "('a \<Rightarrow> error + 'b) \<Rightarrow> 'a list \<Rightarrow> error + 'b list" where
  "list_comp f [] = Inr []"
| "list_comp f (x # xs) =
     (case f x of
        Inl e \<Rightarrow> Inl e
      | Inr y \<Rightarrow> (case list_comp f xs of Inl e \<Rightarrow> Inl e | Inr ys \<Rightarrow> Inr (y # ys)))"

subsection \<open>The Leja node builder (\<^verbatim>\<open>quad_leja\<close>, lines 71 to 88)\<close>

text \<open>\<^verbatim>\<open>numpy.argmin\<close>: the index of the first smallest entry.\<close>

fun argmin :: "real list \<Rightarrow> nat" where
  "argmin [] = 0"
| "argmin [x] = 0"
| "argmin (x # y # ys) = (let i = argmin (y # ys) in if x \<le> (y # ys) ! i then 0 else Suc i)"

text \<open>\<^verbatim>\<open>xs.insert(i, x)\<close> for \<open>i \<ge> 0\<close>: past the end it appends.\<close>

definition list_insert :: "nat \<Rightarrow> 'a \<Rightarrow> 'a list \<Rightarrow> 'a list" where
  "list_insert i x xs = take i xs @ x # drop i xs"

text \<open>The local objective function of lines 75 to 78.\<close>

definition objective :: "marginal \<Rightarrow> real list \<Rightarrow> real \<Rightarrow> real" where
  "objective d abscissas x =
     - sqrt (pdf d x) * prod_list (map (\<lambda>a. \<bar>a - x\<bar>) (butlast (tl abscissas)))"

text \<open>
  One iteration of the loop (lines 75 to 86). Unpacking the results into
  \<^verbatim>\<open>opts, vals\<close> fails when there is none.
\<close>

definition leja_step :: "externals \<Rightarrow> marginal \<Rightarrow> real list \<Rightarrow> error + real list" where
  "leja_step ext d abscissas =
     (case list_comp
             (\<lambda>idx. fminbound ext (objective d abscissas) (abscissas ! idx) (abscissas ! (idx + 1)))
             [0 ..< length abscissas - 1] of
        Inl e \<Rightarrow> Inl e
      | Inr res \<Rightarrow>
          if res = [] then Inl ValueError
          else
            let opts = map fst res;
                vals = map snd res;
                index = argmin vals
            in Inr (list_insert (index + 1) (opts ! index) abscissas))"

text \<open>\<^verbatim>\<open>for _ in range(n)\<close> around the step.\<close>

fun leja_loop :: "externals \<Rightarrow> marginal \<Rightarrow> nat \<Rightarrow> real list \<Rightarrow> error + real list" where
  "leja_loop ext d 0 abscissas = Inr abscissas"
| "leja_loop ext d (Suc n) abscissas =
     (case leja_step ext d abscissas of
        Inl e \<Rightarrow> Inl e
      | Inr abscissas' \<Rightarrow> leja_loop ext d n abscissas')"

text \<open>
  Lines 71 to 88: the anchors, \<^verbatim>\<open>range(int(order))\<close> iterations (none for a negative
  order), and the slice \<^verbatim>\<open>[1:-1]\<close>.
\<close>

definition leja_nodes :: "externals \<Rightarrow> marginal \<Rightarrow> py_order \<Rightarrow> error + real list" where
  "leja_nodes ext d order =
     (let (lower, upper) = range_dist d;
          abscissas = [lower, mom d 1, upper]
      in case py_int order of
           Inl e \<Rightarrow> Inl e
         | Inr n \<Rightarrow>
             (case leja_loop ext d (nat n) abscissas of
                Inl e \<Rightarrow> Inl e
              | Inr abscissas' \<Rightarrow> Inr (butlast (tl abscissas'))))"

subsection \<open>The Leja weight solver (\<^verbatim>\<open>create_weights\<close>)\<close>

text \<open>\<^verbatim>\<open>weights[:, 0]\<close>: entry 0 of every row, that is, column 0.\<close>

definition column0 :: "real list list \<Rightarrow> error + real list" where
  "column0 rows = list_comp (\<lambda>row. case row of [] \<Rightarrow> Inl IndexError | x # _ \<Rightarrow> Inr x) rows"

text \<open>
  Lines 97 to 103: the analytical Stieltjes procedure, and the discretized one on a
  quadrature of \<^verbatim>\<open>100*len(nodes)\<close> samples when the first raises \<^verbatim>\<open>NotImplementedError\<close>.
\<close>

definition stieltjes_poly :: "externals \<Rightarrow> real list \<Rightarrow> marginal \<Rightarrow> error + polynomials" where
  "stieltjes_poly ext nodes d =
     (case analytical_stieljes ext (int (length nodes) - 1) d of
        Inl NotImplementedError \<Rightarrow>
          (case construct_quadrature ext (100 * int (length nodes)) d of
             Inl e \<Rightarrow> Inl e
           | Inr (abscissas, weights) \<Rightarrow>
               discretized_stieltjes ext (int (length nodes) - 1) abscissas weights)
      | Inl e \<Rightarrow> Inl e
      | Inr poly \<Rightarrow> Inr poly)"

definition create_weights :: "externals \<Rightarrow> real list \<Rightarrow> marginal \<Rightarrow> error + real list" where
  "create_weights ext nodes d =
     (case stieltjes_poly ext nodes d of
        Inl e \<Rightarrow> Inl e
      | Inr poly \<Rightarrow>
          (case linalg_inv ext (poly nodes) of
             Inl e \<Rightarrow> Inl e
           | Inr weights \<Rightarrow> column0 weights))"

subsection \<open>The Leja generator (\<^verbatim>\<open>quad_leja\<close>)\<close>

text \<open>The one-dimensional procedure, lines 71 to 92: the result is a \<open>1 \<times> n\<close> array of
  abscissas and \<open>n\<close> weights.\<close>

definition quad_leja1 ::
  "externals \<Rightarrow> py_order \<Rightarrow> marginal \<Rightarrow> error + (real list list \<times> real list)" where
  "quad_leja1 ext order d =
     (case leja_nodes ext d order of
        Inl e \<Rightarrow> Inl e
      | Inr abscissas \<Rightarrow>
          (case create_weights ext abscissas d of
             Inl e \<Rightarrow> Inl e
           | Inr weights \<Rightarrow> Inr ([abscissas], weights)))"

text \<open>
  Modelled from the spec: \<^verbatim>\<open>combine\<close> of \<^verbatim>\<open>chaospy/quad/combine.py\<close>, which is not among
  the sources. The spec describes it as
  \<^verbatim>\<open>combine(list_of_per_dim_arrays) -> Cartesian-product array\<close>: one row for each
  element of the Cartesian product, holding one entry of each array. The rows are in
  lexicographic order, the first array varying slowest, as the multivariate example in
  the docstring of \<^verbatim>\<open>gauss_radau.py\<close> shows.
\<close>

fun combine :: "'a list list \<Rightarrow> 'a list list" where
  "combine [] = [[]]"
| "combine (xs # xss) = concat (map (\<lambda>x. map ((#) x) (combine xss)) xs)"

text \<open>\<^verbatim>\<open>a.T\<close> of an array with \<open>ncols\<close> columns, given by its rows.\<close>

definition transpose_T :: "nat \<Rightarrow> 'a list list \<Rightarrow> 'a list list" where
  "transpose_T ncols rows = map (\<lambda>j. map (\<lambda>row. row ! j) rows) [0 ..< ncols]"

text \<open>
  Lines 58 to 61. The recursive calls of \<^verbatim>\<open>quad_leja\<close> receive one marginal, whose
  length is 1, so each of them runs the one-dimensional procedure.
\<close>

definition leja_per_dim ::
  "externals \<Rightarrow> py_order \<Rightarrow> distribution \<Rightarrow> error + (real list list \<times> real list) list" where
  "leja_per_dim ext order d =
     (if isinstance_int order
      then list_comp (\<lambda>m. quad_leja1 ext order m) (marginals d)
      else list_comp
             (\<lambda>i. case getitem order i of
                     Inl e \<Rightarrow> Inl e
                   | Inr order_i \<Rightarrow> quad_leja1 ext order_i (marginals d ! i))
             [0 ..< len d])"

text \<open>\<^verbatim>\<open>_[0][0]\<close>: the first row of the abscissas of a one-dimensional result.\<close>

definition first_row :: "real list list \<times> real list \<Rightarrow> error + real list" where
  "first_row r = (case fst r of [] \<Rightarrow> Inl IndexError | row # _ \<Rightarrow> Inr row)"

definition quad_leja ::
  "externals \<Rightarrow> py_order \<Rightarrow> distribution \<Rightarrow> error + (real list list \<times> real list)" where
  "quad_leja ext order d =
     (if len d > 1 then
        if get_dependencies ext (marginals d) then Inl DependencyError
        else
          (case leja_per_dim ext order d of
             Inl e \<Rightarrow> Inl e
           | Inr out \<Rightarrow>
               (case list_comp first_row out of
                  Inl e \<Rightarrow> Inl e
                | Inr abscissas \<Rightarrow>
                    let weights = map snd out
                    in Inr (transpose_T (length abscissas) (combine abscissas),
                            map prod_list (combine weights))))
      else quad_leja1 ext order (first_marginal d))"

subsection \<open>The Radau modification (\<^verbatim>\<open>radau_jakobi\<close>)\<close>

text \<open>
  Lines 159 to 162: the right-hand side and the three bands of the system.
  \<^verbatim>\<open>numpy.zeros\<close> refuses a negative length, \<^verbatim>\<open>[-1]\<close> of an empty array raises, and
  \<^verbatim>\<open>vstack\<close> refuses rows of different lengths.
\<close>

definition radau_system :: "coeffs \<Rightarrow> real \<Rightarrow> error + (real list list \<times> real list)" where
  "radau_system coeffs fixed_point =
     (let a = fst coeffs; b = snd coeffs in
      if a = [] then Inl ValueError
      else if b = [] \<or> length a - 1 = 0 then Inl IndexError
      else if length a \<noteq> length b then Inl ValueError
      else
        let right_hand_side = (replicate (length a - 1) 0)[length a - 2 := last b];
            bands_a = [map sqrt b, map (\<lambda>x. x - fixed_point) a];
            bands_j = [butlast (bands_a ! 0), butlast (bands_a ! 1), tl (bands_a ! 0)]
        in Inr (bands_j, right_hand_side))"

text \<open>
  The \<^verbatim>\<open>fixed_point\<close> argument of \<^verbatim>\<open>radau_jakobi\<close> is a Python \<^verbatim>\<open>float\<close> (the type its
  docstring gives) or a numpy scalar (what \<^verbatim>\<open>quad_gauss_radau\<close> passes, an entry of an
  array). Both take part in arithmetic; only the numpy scalar has the method
  \<^verbatim>\<open>item()\<close>.
\<close>

datatype scalar = PyFloat real | NpFloat real

fun scalar_value :: "scalar \<Rightarrow> real" where
  "scalar_value (PyFloat x) = x"
| "scalar_value (NpFloat x) = x"

fun item :: "scalar \<Rightarrow> error + real" where
  "item (PyFloat x) = Inl AttributeError"
| "item (NpFloat x) = Inr x"

text \<open>
  Arrays live in a store, so that the effect of \<^verbatim>\<open>coeffs.copy()\<close> and of the assignment
  \<^verbatim>\<open>coeffs[0, -1] = ...\<close> on the caller's array can be stated. A reference is the
  number of a cell; the cells below \<open>next_ref\<close> are allocated.
\<close>

record heap =
  cells :: "nat \<Rightarrow> coeffs"
  next_ref :: nat

text \<open>\<^verbatim>\<open>coeffs.copy()\<close>: a fresh array with the same entries.\<close>

definition ndarray_copy :: "heap \<Rightarrow> nat \<Rightarrow> heap \<times> nat" where
  "ndarray_copy h r =
     (h\<lparr>cells := (cells h)(next_ref h := cells h r), next_ref := Suc (next_ref h)\<rparr>, next_ref h)"

text \<open>\<^verbatim>\<open>coeffs[0, -1] = v\<close>, in place.\<close>

definition set_last_alpha :: "heap \<Rightarrow> nat \<Rightarrow> real \<Rightarrow> heap" where
  "set_last_alpha h r v =
     (let (a, b) = cells h r
      in h\<lparr>cells := (cells h)(r := (a[length a - 1 := v], b))\<rparr>)"

text \<open>
  Lines 159 to 170. The handler of lines 165 to 167 formats its message with
  \<^verbatim>\<open>fixed_point.item()\<close> before it raises, so a failure of \<^verbatim>\<open>item()\<close> is what is raised.
\<close>

definition radau_jakobi :: "externals \<Rightarrow> heap \<Rightarrow> nat \<Rightarrow> scalar \<Rightarrow> error + (heap \<times> nat)" where
  "radau_jakobi ext h coeffs fixed_point =
     (case radau_system (cells h coeffs) (scalar_value fixed_point) of
        Inl e \<Rightarrow> Inl e
      | Inr (bands_j, right_hand_side) \<Rightarrow>
          (case solve_banded ext bands_j right_hand_side of
             Inl (LinAlgError err) \<Rightarrow>
               (case item fixed_point of
                  Inl e \<Rightarrow> Inl e
                | Inr x \<Rightarrow> Inl (LinAlgError (IllegalRadauFixedPoint x)))
           | Inl e \<Rightarrow> Inl e
           | Inr delta \<Rightarrow>
               let (h1, coeffs') = ndarray_copy h coeffs
               in if delta = [] then Inl IndexError
                  else Inr (set_last_alpha h1 coeffs' (scalar_value fixed_point + last delta),
                            coeffs')))"

subsection \<open>The Gauss-Radau generator (\<^verbatim>\<open>quad_gauss_radau\<close>)\<close>

datatype fixed_point_arg = FPNone | FPScalar real | FPArray "real list"

text \<open>
  Lines 114 to 117. Without a fixed point, the lower bounds of \<^verbatim>\<open>dist.range()\<close>;
  otherwise \<^verbatim>\<open>numpy.ones(len(dist))*fixed_point\<close>, which broadcasts.
\<close>

definition resolve_fixed_point :: "distribution \<Rightarrow> fixed_point_arg \<Rightarrow> error + real list" where
  "resolve_fixed_point d fixed_point =
     (case fixed_point of
        FPNone \<Rightarrow> Inr (map (\<lambda>m. fst (range_dist m)) (marginals d))
      | FPScalar p \<Rightarrow> Inr (map (\<lambda>one. one * p) (replicate (len d) 1))
      | FPArray ps \<Rightarrow>
          if length ps = len d \<or> len d = 1 then Inr ps
          else if length ps = 1 then Inr (replicate (len d) (ps ! 0))
          else Inl ValueError)"

text \<open>The arrays of a list, allocated in a store one after the other.\<close>

definition heap_of :: "coeffs list \<Rightarrow> heap" where
  "heap_of cs = \<lparr>cells = (\<lambda>r. if r < length cs then cs ! r else ([], [])), next_ref = length cs\<rparr>"

text \<open>
  Lines 124 and 125: \<^verbatim>\<open>[radau_jakobi(coeffs, point) for point, coeffs in zip(...)]\<close>,
  the store passed from one call to the next. Each \<^verbatim>\<open>point\<close> is an entry of the array
  \<^verbatim>\<open>fixed_point\<close>, a numpy scalar.
\<close>

fun radau_all :: "externals \<Rightarrow> heap \<Rightarrow> (real \<times> nat) list \<Rightarrow> error + (heap \<times> nat list)" where
  "radau_all ext h [] = Inr (h, [])"
| "radau_all ext h ((point, coeffs) # rest) =
     (case radau_jakobi ext h coeffs (NpFloat point) of
        Inl e \<Rightarrow> Inl e
      | Inr (h1, r) \<Rightarrow>
          (case radau_all ext h1 rest of
             Inl e \<Rightarrow> Inl e
           | Inr (h2, rs) \<Rightarrow> Inr (h2, r # rs)))"

text \<open>\<^verbatim>\<open>a.reshape(nrows, -1)\<close>: the entries in row-major order, cut into \<open>nrows\<close> rows.\<close>

fun chunks :: "nat \<Rightarrow> nat \<Rightarrow> 'a list \<Rightarrow> 'a list list" where
  "chunks 0 width xs = []"
| "chunks (Suc k) width xs = take width xs # chunks k width (drop width xs)"

definition reshape_rows :: "nat \<Rightarrow> 'a list list \<Rightarrow> error + 'a list list" where
  "reshape_rows nrows rows =
     (let flat = concat rows in
      if nrows = 0 \<or> length flat mod nrows \<noteq> 0 then Inl ValueError
      else Inr (chunks nrows (length flat div nrows) flat))"

text \<open>Lines 122 to 127: the one-dimensional rules of the dimensions.\<close>

definition radau_per_dim ::
  "externals \<Rightarrow> int \<Rightarrow> distribution \<Rightarrow> real list \<Rightarrow> string \<Rightarrow> int \<Rightarrow> string \<Rightarrow>
     error + (real list list \<times> real list list)" where
  "radau_per_dim ext order d fixed_point rule accuracy recurrence_algorithm =
     (case construct_recurrence_coefficients ext (2 * order - 1) d rule accuracy
             recurrence_algorithm of
        Inl e \<Rightarrow> Inl e
      | Inr coefficients \<Rightarrow>
          (case radau_all ext (heap_of coefficients)
                  (zip fixed_point [0 ..< length coefficients]) of
             Inl e \<Rightarrow> Inl e
           | Inr (h, rs) \<Rightarrow> coefficients_to_quadrature ext (map (cells h) rs)))"

definition quad_gauss_radau ::
  "externals \<Rightarrow> int \<Rightarrow> distribution \<Rightarrow> fixed_point_arg \<Rightarrow> string \<Rightarrow> int \<Rightarrow> string \<Rightarrow>
     error + (real list list \<times> real list)" where
  "quad_gauss_radau ext order d fixed_point rule accuracy recurrence_algorithm =
     (case resolve_fixed_point d fixed_point of
        Inl e \<Rightarrow> Inl e
      | Inr fixed_point' \<Rightarrow>
          if order = 0 then Inr (map (\<lambda>p. [p]) fixed_point', [1])
          else
            (case radau_per_dim ext order d fixed_point' rule accuracy recurrence_algorithm of
               Inl e \<Rightarrow> Inl e
             | Inr (abscissas, weights) \<Rightarrow>
                 (case reshape_rows (len d) (transpose_T (length abscissas) (combine abscissas)) of
                    Inl e \<Rightarrow> Inl e
                  | Inr abscissas' \<Rightarrow> Inr (abscissas', map prod_list (combine weights)))))"

subsection \<open>Vocabulary of the properties\<close>

text \<open>
  A bounded minimiser that answers with a point strictly inside the interval it was given.
\<close>

definition interior_minimiser :: "externals \<Rightarrow> bool" where
  "interior_minimiser ext =
     (\<forall>f a b x v. a < b \<longrightarrow> fminbound ext f a b = Inr (x, v) \<longrightarrow> a < x \<and> x < b)"

text \<open>
  The multi-indices of a tensor grid with the given numbers of points, in the order of
  the rows of \<open>combine\<close>, and the entries a multi-index selects, one from each list.
\<close>

definition multi_indices :: "nat list \<Rightarrow> nat list list" where
  "multi_indices counts = combine (map (\<lambda>n. [0 ..< n]) counts)"

definition select :: "'a list list \<Rightarrow> nat list \<Rightarrow> 'a list" where
  "select xss mi = map (\<lambda>(xs, i). xs ! i) (zip xss mi)"

text \<open>
  The contract of \<^verbatim>\<open>scipy.linalg.solve_banded((1, 1), ab, b)\<close>: the matrix is stored by
  diagonals, \<^verbatim>\<open>ab[1 + i - j, j] == a[i, j]\<close>, so row \<open>i\<close> of the product \<open>a x\<close> is
  \<open>ab[2][i-1] * x[i-1] + ab[1][i] * x[i] + ab[0][i+1] * x[i+1]\<close>.
\<close>

definition banded_row :: "real list list \<Rightarrow> real list \<Rightarrow> nat \<Rightarrow> real" where
  "banded_row ab x i =
     (if 0 < i then ab ! 2 ! (i - 1) * x ! (i - 1) else 0)
     + ab ! 1 ! i * x ! i
     + (if i + 1 < length x then ab ! 0 ! (i + 1) * x ! (i + 1) else 0)"

definition banded_solution :: "real list list \<Rightarrow> real list \<Rightarrow> real list \<Rightarrow> bool" where
  "banded_solution ab b x =
     (length x = length b \<and> list_all (\<lambda>i. banded_row ab x i = b ! i) [0 ..< length b])"




text \<open>
  What the spec asks of a tensor-product rule built from one-dimensional rules (nodes and
  weights of each dimension): the number \<open>N\<close> of nodes is the product of the numbers of
  nodes of the dimensions; node \<open>i\<close>, which is column \<open>i\<close> of the abscissas, holds the nodes
  that the \<open>i\<close>-th multi-index selects; weight \<open>i\<close> is the product of the weights that the same
  multi-index selects.
\<close>

definition is_tensor_rule :: "(real list \<times> real list) list \<Rightarrow> real list list \<Rightarrow> real list \<Rightarrow> bool" where
  "is_tensor_rule rules X W =
     (let counts = map (\<lambda>r. length (fst r)) rules;
          mis = multi_indices counts;
          N = prod_list counts
      in length mis = N \<and> length W = N \<and> length X = length rules
         \<and> list_all (\<lambda>row. length row = N) X
         \<and> list_all (\<lambda>i. map (\<lambda>row. row ! i) X = select (map fst rules) (mis ! i)
                         \<and> W ! i = prod_list (select (map snd rules) (mis ! i)))
             [0 ..< N])"





subsection \<open>A small concrete environment\<close>

text \<open>
  The examples below run the code on exact stand-ins for the numerical routines: a
  minimiser that answers with the midpoint, the inverse of a matrix of one or two rows,
  a banded solver for one unknown, the orthogonal polynomials \<open>1\<close> and \<open>x - E[X]\<close>,
  the recurrence coefficients of degree 1 computed from the raw moments, and the
  eigendecomposition of a Jacobi matrix of two rows.
\<close>

text \<open>
  For one unknown \<^verbatim>\<open>scipy.linalg.solve_banded\<close> divides the right-hand side by the diagonal
  entry and raises nothing, whatever the entry. For a zero entry the floating-point
  quotient is an infinity or a nan, for which \<^typ>\<open>real\<close> has no value (the quotient of
  HOL is 0 there); no property below uses the value of the stand-in at a zero entry.
\<close>

fun inv_small :: "real list list \<Rightarrow> error + real list list" where
  "inv_small [[a]] = (if a = 0 then Inl (LinAlgError SingularMatrix) else Inr [[1 / a]])"
| "inv_small [[a, b], [c, d]] =
     (let det = a * d - b * c in
      if det = 0 then Inl (LinAlgError SingularMatrix)
      else Inr [[d / det, - b / det], [- c / det, a / det]])"
| "inv_small rows = Inl (OtherError ''unsupported size'')"

fun solve_small :: "real list list \<Rightarrow> real list \<Rightarrow> error + real list" where
  "solve_small [upper, [diag], lower] [y] = Inr [y / diag]"
| "solve_small ab b = Inl (OtherError ''unsupported size'')"

definition stieltjes_small :: "int \<Rightarrow> marginal \<Rightarrow> error + polynomials" where
  "stieltjes_small n d =
     (if n = 0 then Inr (\<lambda>nodes. [map (\<lambda>x. 1) nodes])
      else if n = 1 then Inr (\<lambda>nodes. [map (\<lambda>x. 1) nodes, map (\<lambda>x. x - mom d 1) nodes])
      else Inl NotImplementedError)"

definition recurrence_small :: "marginal \<Rightarrow> coeffs" where
  "recurrence_small m =
     (let mu = mom m 1; var = mom m 2 - mu * mu
      in ([mu, (mom m 3 - 2 * mu * mom m 2 + mu * mu * mu) / var], [1, var]))"

text \<open>
  The eigenvalues of the Jacobi matrix of two pairs of coefficients, with the squared first
  entries of the normalised eigenvectors times \<open>\<beta>\<^sub>0\<close> as weights. A negative \<open>\<beta>\<close> is
  refused.
\<close>

fun eig_small :: "coeffs \<Rightarrow> error + (real list \<times> real list)" where
  "eig_small ([a0, a1], [b0, b1]) =
     (if b0 < 0 \<or> b1 < 0 then Inl (LinAlgError SingularMatrix)
      else
        let mid = (a0 + a1) / 2;
            radius = sqrt (((a0 - a1) / 2)\<^sup>2 + b1);
            weight = (\<lambda>x. b0 * b1 / (b1 + (x - a0)\<^sup>2))
        in Inr ([mid - radius, mid + radius], [weight (mid - radius), weight (mid + radius)]))"
| "eig_small c = Inl (OtherError ''unsupported size'')"

definition example_ext :: externals where
  "example_ext =
     \<lparr>fminbound = (\<lambda>f a b. if b < a then Inl ValueError else Inr ((a + b) / 2, f ((a + b) / 2))),
      get_dependencies = (\<lambda>ms. False),
      analytical_stieljes = stieltjes_small,
      construct_quadrature = (\<lambda>n d. Inl (OtherError ''no quadrature'')),
      discretized_stieltjes = (\<lambda>n xs ws. Inl (OtherError ''no quadrature'')),
      linalg_inv = inv_small,
      solve_banded = solve_small,
      construct_recurrence_coefficients =
        (\<lambda>n d rule accuracy algorithm.
           if n = 1 then Inr (map recurrence_small (marginals d))
           else Inl (OtherError ''unsupported degree'')),
      coefficients_to_quadrature =
        (\<lambda>cs. case list_comp eig_small cs of
                Inl e \<Rightarrow> Inl e
              | Inr rules \<Rightarrow> Inr (map fst rules, map snd rules))\<rparr>"

text \<open>The uniform distribution on \<open>[0, 1]\<close>.\<close>

definition uniform01 :: marginal where
  "uniform01 = \<lparr>range_dist = (0, 1), mom = (\<lambda>k. 1 / (real k + 1)),
                pdf = (\<lambda>x. if 0 \<le> x \<and> x \<le> 1 then 1 else 0)\<rparr>"

text \<open>The uniform distribution on \<open>[-1, 1]\<close>.\<close>

definition uniform_m11 :: marginal where
  "uniform_m11 = \<lparr>range_dist = (- 1, 1), mom = (\<lambda>k. if even k then 1 / (real k + 1) else 0),
                pdf = (\<lambda>x. if - 1 \<le> x \<and> x \<le> 1 then 1 / 2 else 0)\<rparr>"

text \<open>The same environment, with a dependency check that reports a dependency.\<close>

definition dependent_ext :: externals where
  "dependent_ext = example_ext\<lparr>get_dependencies := (\<lambda>ms. True)\<rparr>"

section \<open>List comprehensions and the example environment\<close>

lemma list_comp_length: "list_comp f xs = Inr ys \<Longrightarrow> length ys = length xs"
  by (induction xs arbitrary: ys) (auto split: sum.splits)

lemma list_comp_nth:
  "list_comp f xs = Inr ys \<Longrightarrow> i < length xs \<Longrightarrow> f (xs ! i) = Inr (ys ! i)"
proof (induction xs arbitrary: ys i)
  case Nil
  then show ?case by simp
next
  case (Cons x xs)
  then show ?case by (cases i) (auto split: sum.splits)
qed

lemma list_comp_total:
  "(\<And>x. x \<in> set xs \<Longrightarrow> \<exists>y. f x = Inr y) \<Longrightarrow> \<exists>ys. list_comp f xs = Inr ys"
proof (induction xs)
  case Nil
  then show ?case by simp
next
  case (Cons x xs)
  then obtain y where "f x = Inr y" by auto
  moreover from Cons obtain ys where "list_comp f xs = Inr ys" by auto
  ultimately show ?case by simp
qed

lemma list_comp_cong:
  "(\<And>x. x \<in> set xs \<Longrightarrow> f x = g x) \<Longrightarrow> list_comp f xs = list_comp g xs"
proof (induction xs)
  case Nil
  show ?case by simp
next
  case (Cons a xs)
  have "f a = g a" using Cons.prems by simp
  moreover have "list_comp f xs = list_comp g xs" using Cons by simp
  ultimately show ?case by (simp split: sum.splits)
qed

lemma example_ext_simps:
  "fminbound example_ext f a b
     = (if b < a then Inl ValueError else Inr ((a + b) / 2, f ((a + b) / 2)))"
  "get_dependencies example_ext ms = False"
  "analytical_stieljes example_ext = stieltjes_small"
  "linalg_inv example_ext = inv_small"
  "solve_banded example_ext = solve_small"
  "construct_recurrence_coefficients example_ext n d rule accuracy algorithm
     = (if n = 1 then Inr (map recurrence_small (marginals d))
        else Inl (OtherError ''unsupported degree''))"
  "coefficients_to_quadrature example_ext cs
     = (case list_comp eig_small cs of
          Inl e \<Rightarrow> Inl e
        | Inr rules \<Rightarrow> Inr (map fst rules, map snd rules))"
  by (simp_all add: example_ext_def)

lemma uniform01_simps:
  "range_dist uniform01 = (0, 1)" "mom uniform01 k = 1 / (real k + 1)"
  "pdf uniform01 x = (if 0 \<le> x \<and> x \<le> 1 then 1 else 0)"
  by (simp_all add: uniform01_def)

lemma uniform_m11_simps:
  "range_dist uniform_m11 = (- 1, 1)" "mom uniform_m11 k = (if even k then 1 / (real k + 1) else 0)"
  by (simp_all add: uniform_m11_def)

lemma recurrence_small_uniform_m11: "recurrence_small uniform_m11 = ([0, 0], [1, 1 / 3])"
  by (simp add: recurrence_small_def uniform_m11_simps Let_def)


section \<open>Properties of the Leja node builder\<close>


lemma argmin_less: "vals \<noteq> [] \<Longrightarrow> argmin vals < length vals"
  by (induction vals rule: argmin.induct) (auto simp: Let_def)

lemma leja_step_Inr:
  assumes "leja_step ext d a = Inr a'"
  shows "\<exists>i x v. i < length a - 1 \<and> fminbound ext (objective d a) (a ! i) (a ! (i + 1)) = Inr (x, v)
            \<and> a' = list_insert (i + 1) x a"
proof -
  let ?f = "\<lambda>idx. fminbound ext (objective d a) (a ! idx) (a ! (idx + 1))"
  from assms obtain res where res: "list_comp ?f [0 ..< length a - 1] = Inr res" "res \<noteq> []"
    and a': "a' = list_insert (argmin (map snd res) + 1) (map fst res ! argmin (map snd res)) a"
    by (auto simp: leja_step_def Let_def split: sum.splits if_splits)
  let ?i = "argmin (map snd res)"
  have len: "length res = length a - 1" using list_comp_length[OF res(1)] by simp
  have i: "?i < length a - 1" using argmin_less[of "map snd res"] res(2) len by simp
  have "?f ([0 ..< length a - 1] ! ?i) = Inr (res ! ?i)"
    using list_comp_nth[OF res(1)] i by simp
  then have "?f ?i = Inr (fst (res ! ?i), snd (res ! ?i))" using i by simp
  moreover have "map fst res ! ?i = fst (res ! ?i)" using i len by simp
  ultimately show ?thesis using i a' by metis
qed

lemma leja_step_total:
  assumes "\<And>f a b. \<exists>r. fminbound ext f a b = Inr r" and "2 \<le> length a"
  shows "\<exists>a'. leja_step ext d a = Inr a'"
proof -
  let ?f = "\<lambda>idx. fminbound ext (objective d a) (a ! idx) (a ! (idx + 1))"
  obtain res where res: "list_comp ?f [0 ..< length a - 1] = Inr res"
    using list_comp_total[of "[0 ..< length a - 1]" ?f] assms(1) by blast
  have "length res = length a - 1" using list_comp_length[OF res] by simp
  then have "res \<noteq> []" using assms(2) by auto
  then show ?thesis using res by (simp add: leja_step_def Let_def)
qed

text \<open>The anchor list keeps its first and its last entry: every insertion goes between them.\<close>

lemma list_insert_frame:
  "i \<le> length mid \<Longrightarrow> list_insert (i + 1) x (l # mid @ [u]) = l # list_insert i x mid @ [u]"
  by (simp add: list_insert_def)

lemma set_list_insert: "set (list_insert i x xs) = insert x (set xs)"
proof -
  have "set (take i xs) \<union> set (drop i xs) = set xs"
    by (metis append_take_drop_id set_append)
  then show ?thesis by (auto simp: list_insert_def)
qed

lemma length_list_insert: "length (list_insert i x xs) = Suc (length xs)"
  by (simp add: list_insert_def)

lemma leja_step_frame:
  assumes "leja_step ext d (l # mid @ [u]) = Inr a'"
  shows "\<exists>i x v. i \<le> length mid
            \<and> fminbound ext (objective d (l # mid @ [u])) ((l # mid @ [u]) ! i) ((l # mid @ [u]) ! (i + 1)) = Inr (x, v)
            \<and> a' = l # list_insert i x mid @ [u]"
proof -
  from leja_step_Inr[OF assms] obtain i x v where
    i: "i < length (l # mid @ [u]) - 1"
    and f: "fminbound ext (objective d (l # mid @ [u])) ((l # mid @ [u]) ! i) ((l # mid @ [u]) ! (i + 1)) = Inr (x, v)"
    and a': "a' = list_insert (i + 1) x (l # mid @ [u])" by blast
  from i have i': "i \<le> length mid" by simp
  have "a' = l # list_insert i x mid @ [u]"
    using a' list_insert_frame[OF i'] by simp
  with i' f show ?thesis by blast
qed

lemma leja_loop_frame:
  "leja_loop ext d n (l # mid @ [u]) = Inr a' \<Longrightarrow>
     \<exists>mid'. a' = l # mid' @ [u] \<and> length mid' = length mid + n \<and> set mid \<subseteq> set mid'"
proof (induction n arbitrary: mid)
  case 0
  then show ?case by auto
next
  case (Suc n)
  from Suc.prems obtain a1 where s: "leja_step ext d (l # mid @ [u]) = Inr a1"
    and r: "leja_loop ext d n a1 = Inr a'" by (auto split: sum.splits)
  from leja_step_frame[OF s] obtain i x where a1: "a1 = l # list_insert i x mid @ [u]" by blast
  from Suc.IH[of "list_insert i x mid"] r a1 obtain mid' where
    "a' = l # mid' @ [u]" "length mid' = length (list_insert i x mid) + n"
    "set (list_insert i x mid) \<subseteq> set mid'" by blast
  then show ?case by (auto simp: length_list_insert set_list_insert)
qed

lemma leja_loop_total:
  assumes "\<And>f a b. \<exists>r. fminbound ext f a b = Inr r"
  shows "\<exists>a'. leja_loop ext d n (l # mid @ [u]) = Inr a'"
proof (induction n arbitrary: mid)
  case 0
  then show ?case by simp
next
  case (Suc n)
  obtain a1 where s: "leja_step ext d (l # mid @ [u]) = Inr a1"
    using leja_step_total[OF assms, of "l # mid @ [u]" d] by auto
  from leja_step_frame[OF s] obtain i x where a1: "a1 = l # list_insert i x mid @ [u]" by blast
  from Suc.IH[of "list_insert i x mid"] obtain a' where "leja_loop ext d n a1 = Inr a'"
    using a1 by blast
  with s show ?case by simp
qed

lemma leja_loop_Suc_end:
  "leja_loop ext d (Suc n) a =
     (case leja_loop ext d n a of Inl e \<Rightarrow> Inl e | Inr a' \<Rightarrow> leja_step ext d a')"
proof (induction n arbitrary: a)
  case 0
  show ?case by (simp split: sum.splits)
next
  case (Suc n)
  show ?case
  proof (cases "leja_step ext d a")
    case (Inl e)
    then show ?thesis by simp
  next
    case (Inr a1)
    have "leja_loop ext d (Suc (Suc n)) a = leja_loop ext d (Suc n) a1"
      using Inr by simp
    also have "\<dots> = (case leja_loop ext d n a1 of Inl e \<Rightarrow> Inl e | Inr a' \<Rightarrow> leja_step ext d a')"
      by (rule Suc.IH)
    also have "\<dots> = (case leja_loop ext d (Suc n) a of Inl e \<Rightarrow> Inl e | Inr a' \<Rightarrow> leja_step ext d a')"
      using Inr by simp
    finally show ?thesis .
  qed
qed

lemma insert_strict_sorted:
  fixes xs :: "real list"
  assumes "sorted_wrt (<) xs" "i + 1 < length xs" "xs ! i < x" "x < xs ! (i + 1)"
  shows "sorted_wrt (<) (list_insert (i + 1) x xs) \<and> x \<notin> set xs"
proof -
  have lo: "y < x" if "y \<in> set (take (i + 1) xs)" for y
  proof -
    from that obtain j where j: "j < i + 1" "y = xs ! j"
      using assms(2) by (auto simp: in_set_conv_nth)
    have "xs ! j \<le> xs ! i"
    proof (cases "j = i")
      case True
      then show ?thesis by simp
    next
      case False
      with j have "j < i" by simp
      moreover have "i < length xs" using assms(2) by simp
      ultimately have "xs ! j < xs ! i"
        using assms(1) sorted_wrt_nth_less by blast
      then show ?thesis by simp
    qed
    with j assms(3) show ?thesis by simp
  qed
  have hi: "x < y" if "y \<in> set (drop (i + 1) xs)" for y
  proof -
    from that obtain j where j: "j < length xs - (i + 1)" "y = xs ! (i + 1 + j)"
      using assms(2) by (auto simp: in_set_conv_nth)
    have "xs ! (i + 1) \<le> xs ! (i + 1 + j)"
    proof (cases "j = 0")
      case True
      then show ?thesis by simp
    next
      case False
      then have "i + 1 < i + 1 + j" by simp
      moreover have "i + 1 + j < length xs" using j(1) by simp
      ultimately have "xs ! (i + 1) < xs ! (i + 1 + j)"
        using assms(1) sorted_wrt_nth_less by blast
      then show ?thesis by simp
    qed
    with j assms(4) show ?thesis by simp
  qed
  have s1: "sorted_wrt (<) (take (i + 1) xs)" and s2: "sorted_wrt (<) (drop (i + 1) xs)"
    using assms(1) by (simp_all add: sorted_wrt_take sorted_wrt_drop)
  have "set xs = set (take (i + 1) xs) \<union> set (drop (i + 1) xs)"
    by (metis append_take_drop_id set_append)
  then have "x \<notin> set xs" using lo hi by auto
  moreover have "sorted_wrt (<) (list_insert (i + 1) x xs)"
    unfolding list_insert_def using s1 s2 lo hi
    by (fastforce simp: sorted_wrt_append)
  ultimately show ?thesis by simp
qed

lemma leja_step_sorted:
  assumes "interior_minimiser ext" "sorted_wrt (<) a" "leja_step ext d a = Inr a'"
  shows "sorted_wrt (<) a' \<and> (\<exists>i x. i < length a - 1 \<and> x \<notin> set a \<and> a' = list_insert (i + 1) x a)"
proof -
  from leja_step_Inr[OF assms(3)] obtain i x v where
    i: "i < length a - 1"
    and f: "fminbound ext (objective d a) (a ! i) (a ! (i + 1)) = Inr (x, v)"
    and a': "a' = list_insert (i + 1) x a" by blast
  have "a ! i < a ! (i + 1)" using assms(2) i by (simp add: sorted_wrt_iff_nth_less)
  with assms(1) f have "a ! i < x \<and> x < a ! (i + 1)"
    unfolding interior_minimiser_def by blast
  then have "sorted_wrt (<) (list_insert (i + 1) x a) \<and> x \<notin> set a"
    using insert_strict_sorted[of a i x] assms(2) i by simp
  with i a' show ?thesis by blast
qed

lemma leja_loop_sorted:
  "interior_minimiser ext \<Longrightarrow> sorted_wrt (<) a \<Longrightarrow> leja_loop ext d n a = Inr a' \<Longrightarrow> sorted_wrt (<) a'"
proof (induction n arbitrary: a)
  case 0
  then show ?case by simp
next
  case (Suc n)
  from Suc.prems(3) obtain a1 where s: "leja_step ext d a = Inr a1"
    and r: "leja_loop ext d n a1 = Inr a'" by (auto split: sum.splits)
  from leja_step_sorted[OF Suc.prems(1,2) s] have "sorted_wrt (<) a1" by simp
  from Suc.IH[OF Suc.prems(1) this r] show ?case .
qed



lemma leja_nodes_Inr:
  assumes "py_int order = Inr k" "leja_nodes ext d order = Inr nodes"
  shows "leja_loop ext d (nat k) [fst (range_dist d), mom d 1, snd (range_dist d)]
           = Inr (fst (range_dist d) # nodes @ [snd (range_dist d)])
         \<and> length nodes = nat k + 1 \<and> mom d 1 \<in> set nodes"
proof -
  obtain l u where lu: "range_dist d = (l, u)" by (cases "range_dist d")
  from assms lu obtain a' where a': "leja_loop ext d (nat k) (l # [mom d 1] @ [u]) = Inr a'"
    and n: "nodes = butlast (tl a')"
    by (auto simp: leja_nodes_def split: sum.splits)
  from leja_loop_frame[OF a'] obtain mid' where
    "a' = l # mid' @ [u]" "length mid' = length [mom d 1] + nat k" "set [mom d 1] \<subseteq> set mid'"
    by blast
  with n a' lu show ?thesis by simp
qed

lemma leja_nodes_sorted:
  assumes "py_int order = Inr k" "leja_nodes ext d order = Inr nodes"
    and "interior_minimiser ext"
    and "fst (range_dist d) < mom d 1" "mom d 1 < snd (range_dist d)"
  shows "sorted_wrt (<) (fst (range_dist d) # nodes @ [snd (range_dist d)])"
proof -
  have "sorted_wrt (<) [fst (range_dist d), mom d 1, snd (range_dist d)]"
    using assms(4,5) by simp
  moreover have "leja_loop ext d (nat k) [fst (range_dist d), mom d 1, snd (range_dist d)]
           = Inr (fst (range_dist d) # nodes @ [snd (range_dist d)])"
    using leja_nodes_Inr[OF assms(1,2)] by simp
  ultimately show ?thesis using leja_loop_sorted[OF assms(3)] by blast
qed

lemma leja_nodes_total:
  assumes "py_int order = Inr k" "\<And>f a b. \<exists>r. fminbound ext f a b = Inr r"
  shows "\<exists>nodes. leja_nodes ext d order = Inr nodes"
proof -
  obtain l u where lu: "range_dist d = (l, u)" by (cases "range_dist d")
  obtain a' where "leja_loop ext d (nat k) (l # [mom d 1] @ [u]) = Inr a'"
    using leja_loop_total[OF assms(2)] by blast
  with assms(1) lu show ?thesis by (simp add: leja_nodes_def)
qed

text \<open>
  Claim C1, as the code has it. For an order whose integer value is \<open>k\<close>, the node builder
  returns \<open>max k 0 + 1\<close> nodes, not \<open>k\<close>: the slice \<^verbatim>\<open>[1:-1]\<close> drops the first and the last
  entry of the anchor list (the two support bounds) and keeps the first raw moment, which
  is therefore always one of the returned nodes. The builder returns whenever the
  minimiser does. When the first raw moment lies strictly between the support bounds and
  the minimiser answers strictly inside its interval, the nodes are strictly ascending
  and strictly between the bounds, so neither bound is among them.
\<close>

theorem leja_nodes_count:
  assumes "py_int order = Inr k"
  shows "(\<forall>nodes. leja_nodes ext d order = Inr nodes \<longrightarrow>
            length nodes = nat k + 1 \<and> mom d 1 \<in> set nodes)
       \<and> (\<forall>abscissas weights. quad_leja1 ext order d = Inr (abscissas, weights) \<longrightarrow>
            (\<exists>nodes. abscissas = [nodes] \<and> length nodes = nat k + 1 \<and> mom d 1 \<in> set nodes))
       \<and> ((\<forall>f a b. \<exists>r. fminbound ext f a b = Inr r) \<longrightarrow>
            (\<exists>nodes. leja_nodes ext d order = Inr nodes))
       \<and> (\<forall>nodes. leja_nodes ext d order = Inr nodes \<and> interior_minimiser ext
              \<and> fst (range_dist d) < mom d 1 \<and> mom d 1 < snd (range_dist d) \<longrightarrow>
            sorted_wrt (<) nodes
            \<and> (\<forall>x \<in> set nodes. fst (range_dist d) < x \<and> x < snd (range_dist d)))"
proof -
  have c1: "length nodes = nat k + 1 \<and> mom d 1 \<in> set nodes"
    if "leja_nodes ext d order = Inr nodes" for nodes
    using leja_nodes_Inr[OF assms that] by simp
  have c2: "\<exists>nodes. abscissas = [nodes] \<and> length nodes = nat k + 1 \<and> mom d 1 \<in> set nodes"
    if "quad_leja1 ext order d = Inr (abscissas, weights)" for abscissas weights
  proof -
    from that obtain nodes where "leja_nodes ext d order = Inr nodes" "abscissas = [nodes]"
      by (auto simp: quad_leja1_def split: sum.splits)
    with c1 show ?thesis by blast
  qed
  have c3: "\<exists>nodes. leja_nodes ext d order = Inr nodes"
    if "\<forall>f a b. \<exists>r. fminbound ext f a b = Inr r"
    using leja_nodes_total[OF assms] that by blast
  have c4: "sorted_wrt (<) nodes
            \<and> (\<forall>x \<in> set nodes. fst (range_dist d) < x \<and> x < snd (range_dist d))"
    if "leja_nodes ext d order = Inr nodes" "interior_minimiser ext"
       "fst (range_dist d) < mom d 1" "mom d 1 < snd (range_dist d)" for nodes
    using leja_nodes_sorted[OF assms that] by (auto simp: sorted_wrt_append)
  from c1 c2 c3 c4 show ?thesis by blast
qed

lemma example_ext_interior: "interior_minimiser example_ext"
  by (auto simp: interior_minimiser_def example_ext_def split: if_splits)

lemma leja_nodes_uniform01_0: "leja_nodes ext uniform01 (PyInt 0) = Inr [1 / 2]"
  by (simp add: leja_nodes_def uniform01_simps)

lemma leja_nodes_uniform01_neg: "leja_nodes ext uniform01 (PyInt (- 1)) = Inr [1 / 2]"
  by (simp add: leja_nodes_def uniform01_simps)

lemma leja_nodes_uniform01_1: "leja_nodes example_ext uniform01 (PyInt 1) = Inr [1 / 4, 1 / 2]"
  by (simp add: leja_nodes_def uniform01_simps leja_step_def example_ext_simps
      objective_def list_insert_def upt_rec[of 0] upt_rec[of 1] upt_rec[of 2])

text \<open>Order 1 on the uniform distribution on \<open>[0, 1]\<close>, with the midpoint minimiser.\<close>

theorem leja_nodes_count_witness:
  "py_int (PyInt 1) = Inr 1
   \<and> leja_nodes example_ext uniform01 (PyInt 1) = Inr [1 / 4, 1 / 2]
   \<and> length [1 / 4, 1 / 2 :: real] = nat 1 + 1
   \<and> mom uniform01 1 \<in> set [1 / 4, 1 / 2]
   \<and> interior_minimiser example_ext
   \<and> fst (range_dist uniform01) < mom uniform01 1
   \<and> mom uniform01 1 < snd (range_dist uniform01)
   \<and> sorted_wrt (<) [1 / 4, 1 / 2 :: real]"
  using leja_nodes_count[of "PyInt 1" 1 example_ext uniform01]
    leja_nodes_uniform01_1 example_ext_interior
  by (simp add: uniform01_simps)

text \<open>
  Order 0 on the uniform distribution on \<open>[0, 1]\<close>: one node, the first raw moment, as in
  the docstring of the module (\<^verbatim>\<open>0 [[0.5]] [1.]\<close>).
\<close>

theorem leja_nodes_count_counterexample:
  "leja_nodes example_ext uniform01 (PyInt 0) = Inr [1 / 2]
   \<and> quad_leja1 example_ext (PyInt 0) uniform01 = Inr ([[1 / 2]], [1])
   \<and> length [1 / 2 :: real] \<noteq> 0
   \<and> mom uniform01 1 \<in> set [1 / 2 :: real]"
  by (simp add: quad_leja1_def leja_nodes_uniform01_0 create_weights_def stieltjes_poly_def
      example_ext_def stieltjes_small_def column0_def uniform01_simps)

text \<open>
  Claim C3, as the code has it. The nodes of order \<open>k\<close> are among the nodes of order
  \<open>k + 1\<close>. For a negative \<open>k\<close> the two node lists are equal (no iteration runs in either
  call); for \<open>k \<ge> 0\<close> the second is the first with one point inserted, and the inclusion
  is strict when the first raw moment lies strictly between the support bounds and the
  minimiser answers strictly inside its interval.
\<close>

theorem leja_nodes_nested:
  assumes "py_int order = Inr k" "py_int order' = Inr (k + 1)"
    and "leja_nodes ext d order' = Inr ys"
  shows "\<exists>xs. leja_nodes ext d order = Inr xs
          \<and> set xs \<subseteq> set ys
          \<and> (k < 0 \<longrightarrow> xs = ys)
          \<and> (0 \<le> k \<longrightarrow> (\<exists>i x. i \<le> length xs \<and> ys = list_insert i x xs))
          \<and> (0 \<le> k \<and> interior_minimiser ext
               \<and> fst (range_dist d) < mom d 1 \<and> mom d 1 < snd (range_dist d) \<longrightarrow>
             set xs \<subset> set ys)"
proof (cases "k < 0")
  case True
  then have "nat (k + 1) = nat k" by simp
  then have "leja_nodes ext d order = leja_nodes ext d order'"
    using assms(1,2) by (simp add: leja_nodes_def)
  with assms(3) True show ?thesis by simp
next
  case False
  let ?l = "fst (range_dist d)" and ?u = "snd (range_dist d)"
  let ?a0 = "[?l, mom d 1, ?u]"
  from False have nk: "nat (k + 1) = Suc (nat k)" by simp
  have loop: "leja_loop ext d (Suc (nat k)) ?a0 = Inr (?l # ys @ [?u])"
    using leja_nodes_Inr[OF assms(2,3)] nk by simp
  then obtain a1 where a1: "leja_loop ext d (nat k) ?a0 = Inr a1"
    and s: "leja_step ext d a1 = Inr (?l # ys @ [?u])"
    unfolding leja_loop_Suc_end by (auto split: sum.splits)
  from leja_loop_frame[of ext d "nat k" ?l "[mom d 1]" ?u a1] a1
  obtain xs where xs: "a1 = ?l # xs @ [?u]" by auto
  have nodes: "leja_nodes ext d order = Inr xs"
    using assms(1) a1 xs by (cases "range_dist d") (simp add: leja_nodes_def)
  from leja_step_frame[OF s[unfolded xs]] obtain i x where
    i: "i \<le> length xs" and ys: "ys = list_insert i x xs" by auto
  have sub: "set xs \<subseteq> set ys" using ys by (auto simp: set_list_insert)
  have strict: "set xs \<subset> set ys"
    if h: "interior_minimiser ext" "?l < mom d 1" "mom d 1 < ?u"
  proof -
    have "sorted_wrt (<) a1"
      using leja_nodes_sorted[OF assms(1) nodes h] xs by simp
    from leja_step_sorted[OF h(1) this s] obtain j y where
      y: "y \<notin> set a1" and eq: "?l # ys @ [?u] = list_insert (j + 1) y a1" by blast
    have "y \<in> set (?l # ys @ [?u])" unfolding eq by (simp add: set_list_insert)
    with y xs have "y \<in> set ys" "y \<notin> set xs" by auto
    with sub show ?thesis by blast
  qed
  from nodes sub i ys strict False show ?thesis by blast
qed

text \<open>Orders 0 and 1 on the uniform distribution on \<open>[0, 1]\<close>.\<close>

theorem leja_nodes_nested_witness:
  "py_int (PyInt 0) = Inr 0 \<and> py_int (PyInt 1) = Inr (0 + 1)
   \<and> leja_nodes example_ext uniform01 (PyInt 1) = Inr [1 / 4, 1 / 2]
   \<and> leja_nodes example_ext uniform01 (PyInt 0) = Inr [1 / 2]
   \<and> interior_minimiser example_ext
   \<and> fst (range_dist uniform01) < mom uniform01 1
   \<and> mom uniform01 1 < snd (range_dist uniform01)
   \<and> set [1 / 2 :: real] \<subset> set [1 / 4, 1 / 2]"
  using leja_nodes_nested[of "PyInt 0" 0 "PyInt 1" example_ext uniform01 "[1 / 4, 1 / 2]"]
    leja_nodes_uniform01_1 leja_nodes_uniform01_0[of example_ext] example_ext_interior
  by (auto simp: uniform01_simps)

text \<open>Orders \<open>-1\<close> and \<open>0\<close> return the same node: the inclusion is not strict.\<close>

theorem leja_nodes_nested_counterexample:
  "leja_nodes example_ext uniform01 (PyInt (- 1)) = Inr [1 / 2]
   \<and> leja_nodes example_ext uniform01 (PyInt (- 1 + 1)) = Inr [1 / 2]
   \<and> \<not> (set [1 / 2 :: real] \<subset> set [1 / 2 :: real])"
  by (simp add: leja_nodes_uniform01_0 leja_nodes_uniform01_neg)

section \<open>Properties of the Leja weight solver\<close>

lemma column0_nonempty:
  "\<forall>row \<in> set rows. row \<noteq> [] \<Longrightarrow> column0 rows = Inr (map (\<lambda>row. row ! 0) rows)"
  unfolding column0_def
  by (induction rows) (auto split: list.splits)

text \<open>
  Claim C2, as the code has it. The weight solver asks for the polynomial basis of degree
  \<open>len(nodes) - 1\<close> (from the analytical Stieltjes procedure or, when that is not
  implemented, from the discretized one on \<open>100 len(nodes)\<close> samples), inverts the matrix
  \<^verbatim>\<open>poly(nodes)\<close> and returns \<^verbatim>\<open>weights[:, 0]\<close>: entry 0 of every row of the inverse, which
  is its first column, not its first row.
\<close>

theorem create_weights_first_column:
  assumes "analytical_stieljes ext (int (length nodes) - 1) d = Inr poly
           \<or> (analytical_stieljes ext (int (length nodes) - 1) d = Inl NotImplementedError
              \<and> construct_quadrature ext (100 * int (length nodes)) d = Inr (abscissas, weights)
              \<and> discretized_stieltjes ext (int (length nodes) - 1) abscissas weights = Inr poly)"
    and "linalg_inv ext (poly nodes) = Inr inv_matrix"
  shows "create_weights ext nodes d = column0 inv_matrix
         \<and> ((\<forall>row \<in> set inv_matrix. row \<noteq> []) \<longrightarrow>
              create_weights ext nodes d = Inr (map (\<lambda>row. row ! 0) inv_matrix))"
proof -
  have "stieltjes_poly ext nodes d = Inr poly"
    using assms(1) by (auto simp: stieltjes_poly_def)
  then show ?thesis
    using assms(2) column0_nonempty[of inv_matrix] by (simp add: create_weights_def)
qed

lemma stieltjes_poly_example:
  "stieltjes_poly example_ext [x, y] d = Inr (\<lambda>nodes. [map (\<lambda>x. 1) nodes, map (\<lambda>x. x - mom d 1) nodes])"
  by (simp add: stieltjes_poly_def example_ext_simps stieltjes_small_def)

text \<open>The nodes 0 and 1 on the uniform distribution on \<open>[0, 1]\<close>: the trapezoidal weights.\<close>

theorem create_weights_first_column_witness:
  "analytical_stieljes example_ext (int (length [0, 1 :: real]) - 1) uniform01
     = Inr (\<lambda>nodes. [map (\<lambda>x. 1) nodes, map (\<lambda>x. x - mom uniform01 1) nodes])
   \<and> linalg_inv example_ext [[1, 1], [- 1 / 2, 1 / 2]] = Inr [[1 / 2, - 1], [1 / 2, 1]]
   \<and> create_weights example_ext [0, 1] uniform01 = Inr [1 / 2, 1 / 2]"
  using create_weights_first_column[where ext = example_ext and nodes = "[0, 1]"
      and d = uniform01
      and poly = "\<lambda>nodes. [map (\<lambda>x. 1) nodes, map (\<lambda>x. x - mom uniform01 1) nodes]"
      and inv_matrix = "[[1 / 2, - 1], [1 / 2, 1]]"]
  by (simp add: stieltjes_small_def uniform01_simps example_ext_simps column0_def)

text \<open>On the same input the first row of the inverse is \<open>[1/2, -1]\<close>, which is not what is returned.\<close>

theorem create_weights_first_column_counterexample:
  "linalg_inv example_ext [[1, 1], [- 1 / 2, 1 / 2]] = Inr [[1 / 2, - 1], [1 / 2, 1]]
   \<and> create_weights example_ext [0, 1] uniform01 = Inr [1 / 2, 1 / 2]
   \<and> create_weights example_ext [0, 1] uniform01 \<noteq> Inr ([[1 / 2, - 1], [1 / 2, 1]] ! 0)"
  by (simp add: create_weights_def stieltjes_poly_example uniform01_simps example_ext_simps column0_def)


section \<open>Properties of the Leja generator\<close>

text \<open>
  Claim C7. For a distribution of more than one dimension whose dependency check reports
  a dependency, \<^verbatim>\<open>quad_leja\<close> raises \<^verbatim>\<open>DependencyError\<close>, whatever the order, and whatever the
  minimiser, the Stieltjes procedures and the matrix inverse would do: none of them is
  reached, and no result is returned.
\<close>

theorem quad_leja_dependency:
  assumes "1 < len d" "get_dependencies ext (marginals d)"
  shows "quad_leja ext order d = Inl DependencyError
       \<and> quad_leja (ext\<lparr>fminbound := fm, analytical_stieljes := st, construct_quadrature := cq,
            discretized_stieltjes := ds, linalg_inv := li\<rparr>) order d = Inl DependencyError"
  using assms by (simp add: quad_leja_def)

text \<open>Two uniform marginals and a dependency check that reports a dependency.\<close>

theorem quad_leja_dependency_witness:
  "1 < len (Dist uniform01 [uniform01])
   \<and> get_dependencies dependent_ext (marginals (Dist uniform01 [uniform01]))
   \<and> quad_leja dependent_ext (PyInt 2) (Dist uniform01 [uniform01]) = Inl DependencyError"
  using quad_leja_dependency[of "Dist uniform01 [uniform01]" dependent_ext "PyInt 2"]
  by (simp add: dependent_ext_def)


text \<open>
  Claim C10. For more than one dimension, one order is applied to every dimension only
  when it is a Python \<^verbatim>\<open>int\<close>. Every other order is indexed: dimension \<open>i\<close> is built with
  \<^verbatim>\<open>order[i]\<close>. For a sequence with an entry for each dimension that is its \<open>i\<close>-th entry;
  for an integer scalar that is not an \<^verbatim>\<open>int\<close> the indexing itself raises \<^verbatim>\<open>IndexError\<close>.
\<close>

theorem quad_leja_order_dispatch:
  assumes "1 < len d"
  shows "leja_per_dim ext (PyInt n) d = list_comp (\<lambda>m. quad_leja1 ext (PyInt n) m) (marginals d)
       \<and> ((\<forall>n. order \<noteq> PyInt n) \<longrightarrow>
            leja_per_dim ext order d
              = list_comp (\<lambda>i. case getitem order i of
                                  Inl e \<Rightarrow> Inl e
                                | Inr order_i \<Rightarrow> quad_leja1 ext order_i (marginals d ! i))
                  [0 ..< len d])
       \<and> (len d \<le> length os \<longrightarrow>
            leja_per_dim ext (OrderSeq os) d
              = list_comp (\<lambda>i. quad_leja1 ext (os ! i) (marginals d ! i)) [0 ..< len d])
       \<and> leja_per_dim ext (NpInt n) d = Inl IndexError
       \<and> (\<not> get_dependencies ext (marginals d) \<longrightarrow> quad_leja ext (NpInt n) d = Inl IndexError)"
proof -
  have a: "leja_per_dim ext order d
              = list_comp (\<lambda>i. case getitem order i of
                                  Inl e \<Rightarrow> Inl e
                                | Inr order_i \<Rightarrow> quad_leja1 ext order_i (marginals d ! i))
                  [0 ..< len d]" if "\<forall>n. order \<noteq> PyInt n"
    using that by (cases order) (simp_all add: leja_per_dim_def)
  have b: "leja_per_dim ext (OrderSeq os) d
              = list_comp (\<lambda>i. quad_leja1 ext (os ! i) (marginals d ! i)) [0 ..< len d]"
    if "len d \<le> length os"
    unfolding leja_per_dim_def using that
    by (auto intro!: list_comp_cong)
  have "[0 ..< len d] = 0 # [1 ..< len d]" using assms by (simp add: upt_rec)
  then have c: "leja_per_dim ext (NpInt n) d = Inl IndexError"
    by (simp add: leja_per_dim_def)
  then have "\<not> get_dependencies ext (marginals d) \<Longrightarrow> quad_leja ext (NpInt n) d = Inl IndexError"
    using assms by (simp add: quad_leja_def)
  with a b c show ?thesis by (simp add: leja_per_dim_def)
qed


text \<open>
  Two uniform marginals: the order 1 for both, the orders 0 and 1, and a numpy scalar.
\<close>

theorem quad_leja_order_dispatch_witness:
  "1 < len (Dist uniform01 [uniform01])
   \<and> leja_per_dim example_ext (PyInt 1) (Dist uniform01 [uniform01])
       = Inr [([[1 / 4, 1 / 2]], [0, 1]), ([[1 / 4, 1 / 2]], [0, 1])]
   \<and> len (Dist uniform01 [uniform01]) \<le> length [PyInt 0, PyInt 1]
   \<and> leja_per_dim example_ext (OrderSeq [PyInt 0, PyInt 1]) (Dist uniform01 [uniform01])
       = Inr [([[1 / 2]], [1]), ([[1 / 4, 1 / 2]], [0, 1])]
   \<and> quad_leja example_ext (OrderSeq [PyInt 0, PyInt 1]) (Dist uniform01 [uniform01])
       = Inr ([[1 / 2, 1 / 2], [1 / 4, 1 / 2]], [0, 1])
   \<and> quad_leja example_ext (NpInt 1) (Dist uniform01 [uniform01]) = Inl IndexError"
  using quad_leja_order_dispatch[where d = "Dist uniform01 [uniform01]" and ext = example_ext
      and n = 1 and order = "NpInt 1" and os = "[PyInt 0, PyInt 1]"]
  by (simp add: quad_leja_def example_ext_simps upt_rec[of 0] upt_rec[of 1] upt_rec[of 2]
      upt_rec[of 3] quad_leja1_def leja_nodes_def uniform01_simps leja_step_def objective_def
      list_insert_def create_weights_def stieltjes_poly_def stieltjes_small_def column0_def
      first_row_def transpose_T_def)


section \<open>Properties of the Gauss-Radau generator\<close>

text \<open>
  Claim C8. At order 0 \<^verbatim>\<open>quad_gauss_radau\<close> returns one node, whose coordinate in each
  dimension is the resolved fixed point (the lower support bound of the dimension when no
  fixed point is given, the given scalar otherwise), with the single weight 1. The result
  does not depend on the environment: neither the recurrence provider nor the Radau
  modification is reached.
\<close>

theorem quad_gauss_radau_order0:
  "quad_gauss_radau ext 0 d FPNone rule accuracy recurrence_algorithm
     = Inr (map (\<lambda>m. [fst (range_dist m)]) (marginals d), [1])
   \<and> quad_gauss_radau ext 0 d (FPScalar p) rule accuracy recurrence_algorithm
     = Inr (replicate (len d) [p], [1])"
  by (simp add: quad_gauss_radau_def resolve_fixed_point_def comp_def)

text \<open>The uniform distributions on \<open>[0, 1]\<close> and on \<open>[-1, 1]\<close>, joined.\<close>

theorem quad_gauss_radau_order0_witness:
  "quad_gauss_radau example_ext 0 (Dist uniform01 [uniform_m11]) FPNone ''F'' 100 [] = Inr ([[0], [- 1]], [1])
   \<and> quad_gauss_radau example_ext 0 (Dist uniform01 [uniform_m11]) (FPScalar (1 / 2)) ''F'' 100 []
       = Inr ([[1 / 2], [1 / 2]], [1])"
  using quad_gauss_radau_order0[of example_ext "Dist uniform01 [uniform_m11]" "''F''" 100 "[]" "1 / 2"]
  by (simp add: uniform01_simps uniform_m11_def numeral_2_eq_2)




subsection \<open>The Radau modification\<close>









section \<open>Tensor-product rules\<close>


lemma combine_length: "length (combine xss) = prod_list (map length xss)"
  by (induction xss) (simp_all add: length_concat comp_def sum_list_triv)

lemma combine_row_length: "row \<in> set (combine xss) \<Longrightarrow> length row = length xss"
  by (induction xss arbitrary: row) auto

lemma select_Cons: "select (xs # xss) (i # mi) = xs ! i # select xss mi"
  by (simp add: select_def)

lemma combine_select: "combine xss = map (select xss) (multi_indices (map length xss))"
proof (induction xss)
  case Nil
  show ?case by (simp add: multi_indices_def select_def)
next
  case (Cons xs xss)
  let ?mis = "multi_indices (map length xss)"
  have "map (select (xs # xss)) (multi_indices (map length (xs # xss)))
        = concat (map (\<lambda>i. map (\<lambda>mi. xs ! i # select xss mi) ?mis) [0 ..< length xs])"
    by (simp add: multi_indices_def map_concat comp_def select_Cons)
  also have "\<dots> = concat (map (\<lambda>i. map ((#) (xs ! i)) (combine xss)) [0 ..< length xs])"
    by (simp add: Cons.IH comp_def)
  also have "\<dots> = concat (map (\<lambda>x. map ((#) x) (combine xss)) (map ((!) xs) [0 ..< length xs]))"
    by (simp add: comp_def)
  also have "\<dots> = combine (xs # xss)"
    by (simp add: map_nth)
  finally show ?case by simp
qed

lemma transpose_T_column:
  assumes "i < length rows" "length (rows ! i) = D"
  shows "map (\<lambda>row. row ! i) (transpose_T D rows) = rows ! i"
  using assms by (auto simp: transpose_T_def intro!: nth_equalityI)

lemma chunks_concat:
  "\<forall>row \<in> set rows. length row = N \<Longrightarrow> chunks (length rows) N (concat rows) = rows"
  by (induction rows) auto

lemma length_concat_rect:
  "\<forall>row \<in> set rows. length row = N \<Longrightarrow> length (concat rows) = length rows * N"
  by (induction rows) auto

lemma reshape_rows_id:
  assumes "\<forall>row \<in> set rows. length row = N" "length rows = D" "0 < D"
  shows "reshape_rows D rows = Inr rows"
proof -
  have len: "length (concat rows) = D * N" using length_concat_rect[OF assms(1)] assms(2) by simp
  have "chunks D N (concat rows) = rows" using chunks_concat[OF assms(1)] assms(2) by simp
  with len assms(3) show ?thesis by (simp add: reshape_rows_def)
qed

text \<open>The last lines of both generators: \<^verbatim>\<open>combine(...).T\<close> and \<^verbatim>\<open>numpy.prod(combine(...), -1)\<close>.\<close>

lemma tensor_assembly:
  assumes "length xs = length ws" "map length xs = map length ws"
  shows "is_tensor_rule (zip xs ws) (transpose_T (length xs) (combine xs)) (map prod_list (combine ws))"
proof -
  let ?counts = "map length xs"
  let ?mis = "multi_indices ?counts"
  let ?N = "prod_list ?counts"
  have fst_zip: "map fst (zip xs ws) = xs" and snd_zip: "map snd (zip xs ws) = ws"
    using assms(1) by (simp_all add: map_fst_zip map_snd_zip)
  have "map (\<lambda>r. length (fst r)) (zip xs ws) = map length (map fst (zip xs ws))"
    by (simp only: map_map comp_def)
  then have counts: "map (\<lambda>r. length (fst r)) (zip xs ws) = ?counts"
    by (simp only: fst_zip)
  have cx: "combine xs = map (select xs) ?mis" by (rule combine_select)
  have cw: "combine ws = map (select ws) ?mis" using combine_select[of ws] assms(2) by simp
  have lm: "length ?mis = ?N" using combine_length[of xs] cx by (metis length_map)
  have rows: "length row = length xs" if "row \<in> set (combine xs)" for row
    using combine_row_length[OF that] .
  have col: "map (\<lambda>row. row ! i) (transpose_T (length xs) (combine xs)) = select xs (?mis ! i)"
    if "i < ?N" for i
  proof -
    have i: "i < length (combine xs)" using that combine_length[of xs] by simp
    then have "length (combine xs ! i) = length xs" using rows by simp
    from transpose_T_column[OF i this] have
      "map (\<lambda>row. row ! i) (transpose_T (length xs) (combine xs)) = combine xs ! i" .
    also have "\<dots> = select xs (?mis ! i)" using that lm by (subst cx) simp
    finally show ?thesis .
  qed
  have w: "map prod_list (combine ws) ! i = prod_list (select ws (?mis ! i))" if "i < ?N" for i
    using that lm by (subst cw) simp
  have lw: "length (map prod_list (combine ws)) = ?N"
    using combine_length[of ws] assms(2) by simp
  have lx: "length (transpose_T (length xs) (combine xs)) = length (zip xs ws)"
    using assms(1) by (simp add: transpose_T_def)
  have rect: "list_all (\<lambda>row. length row = ?N) (transpose_T (length xs) (combine xs))"
    using combine_length[of xs] by (simp add: transpose_T_def list_all_iff)
  show ?thesis
    unfolding is_tensor_rule_def Let_def counts fst_zip snd_zip
    using lm lw lx rect col w by (simp add: list_all_iff)
qed



lemma sqrt_ninth: "sqrt (1 / 9) = 1 / 3"
proof -
  have "sqrt ((1 / 3)\<^sup>2) = \<bar>1 / 3 :: real\<bar>" by (rule real_sqrt_abs)
  then show ?thesis by (simp add: power2_eq_square)
qed

lemma recurrence_small_uniform01: "recurrence_small uniform01 = ([1 / 2, 1 / 2], [1, 1 / 12])"
  by (simp add: recurrence_small_def uniform01_simps Let_def)

lemma reshape_rows_example:
  "reshape_rows (Suc (Suc 0)) [[a, b, c, d], [e, f, g, h]] = Inr [[a, b, c, d], [e, f, g, h]]"
  by (rule reshape_rows_id[where N = 4]) simp_all

lemma radau_example:
  "quad_gauss_radau example_ext 1 (Dist uniform01 [uniform01]) FPNone ''F'' 100 []
     = Inr ([[0, 0, 2 / 3, 2 / 3], [0, 2 / 3, 0, 2 / 3]], [1 / 16, 3 / 16, 3 / 16, 9 / 16])"
  apply (simp add: quad_gauss_radau_def resolve_fixed_point_def uniform01_simps radau_per_dim_def
      example_ext_simps recurrence_small_uniform01 heap_of_def upt_rec[of 0] upt_rec[of 1]
      upt_rec[of 2] radau_jakobi_def radau_system_def ndarray_copy_def set_last_alpha_def
      power2_eq_square sqrt_ninth transpose_T_def reshape_rows_example)
  done



lemma list_comp_first_row:
  "list_comp first_row out = Inr abscissas \<Longrightarrow> abscissas = map (\<lambda>r. fst r ! 0) out"
proof (induction out arbitrary: abscissas)
  case Nil
  then show ?case by simp
next
  case (Cons r out)
  then show ?case
    by (auto simp: first_row_def split: sum.splits list.splits)
qed

lemma leja_per_dim_length:
  "leja_per_dim ext order d = Inr out \<Longrightarrow> length out = len d"
proof -
  have "length (marginals d) = len d" by (cases d) simp
  then show "leja_per_dim ext order d = Inr out \<Longrightarrow> length out = len d"
    unfolding leja_per_dim_def
    by (cases "isinstance_int order") (auto dest: list_comp_length)
qed

lemma len_positive: "0 < len d"
  by (cases d) simp

text \<open>
  Claim C9. A rule that \<^verbatim>\<open>quad_leja\<close> (for more than one dimension) or \<^verbatim>\<open>quad_gauss_radau\<close>
  (at an order other than 0) returns is built from the one-dimensional rules of the
  dimensions. When each of these has as many weights as nodes (and, for Gauss-Radau, the
  recurrence provider answers with one rule for each dimension), the number of returned
  nodes is the product of the numbers of nodes of the dimensions, and every weight is the
  product of the weights that the multi-index of its node selects.
\<close>

theorem tensor_product_rules:
  "(1 < len d \<and> quad_leja ext order d = Inr (X, W) \<longrightarrow>
      (\<exists>out. leja_per_dim ext order d = Inr out \<and> length out = len d
         \<and> ((\<forall>r \<in> set out. length (fst r ! 0) = length (snd r)) \<longrightarrow>
              is_tensor_rule (map (\<lambda>r. (fst r ! 0, snd r)) out) X W)))
   \<and> (order' \<noteq> 0 \<and> resolve_fixed_point d fp = Inr points
        \<and> quad_gauss_radau ext order' d fp rule accuracy alg = Inr (X', W') \<longrightarrow>
      (\<exists>xs ws. radau_per_dim ext order' d points rule accuracy alg = Inr (xs, ws)
         \<and> (length xs = len d \<and> length ws = len d \<and> map length xs = map length ws \<longrightarrow>
              is_tensor_rule (zip xs ws) X' W')))"
proof -
  have leja: "\<exists>out. leja_per_dim ext order d = Inr out \<and> length out = len d
         \<and> ((\<forall>r \<in> set out. length (fst r ! 0) = length (snd r)) \<longrightarrow>
              is_tensor_rule (map (\<lambda>r. (fst r ! 0, snd r)) out) X W)"
    if h: "1 < len d" "quad_leja ext order d = Inr (X, W)"
  proof -
    from h obtain out abscissas where out: "leja_per_dim ext order d = Inr out"
      and a: "list_comp first_row out = Inr abscissas"
      and X: "X = transpose_T (length abscissas) (combine abscissas)"
      and W: "W = map prod_list (combine (map snd out))"
      by (auto simp: quad_leja_def Let_def split: if_splits sum.splits)
    have xs: "abscissas = map (\<lambda>r. fst r ! 0) out" using list_comp_first_row[OF a] .
    have "is_tensor_rule (map (\<lambda>r. (fst r ! 0, snd r)) out) X W"
      if "\<forall>r \<in> set out. length (fst r ! 0) = length (snd r)"
    proof -
      have "map length abscissas = map length (map snd out)" using that xs by simp
      moreover have "length abscissas = length (map snd out)" using xs by simp
      ultimately have "is_tensor_rule (zip abscissas (map snd out)) X W"
        unfolding X W by (rule tensor_assembly[rotated])
      moreover have "zip abscissas (map snd out) = map (\<lambda>r. (fst r ! 0, snd r)) out"
        unfolding xs by (simp add: zip_map_map zip_same_conv_map)
      ultimately show ?thesis by simp
    qed
    with out leja_per_dim_length[OF out] show ?thesis by blast
  qed
  have radau: "\<exists>xs ws. radau_per_dim ext order' d points rule accuracy alg = Inr (xs, ws)
         \<and> (length xs = len d \<and> length ws = len d \<and> map length xs = map length ws \<longrightarrow>
              is_tensor_rule (zip xs ws) X' W')"
    if h: "order' \<noteq> 0" "resolve_fixed_point d fp = Inr points"
      "quad_gauss_radau ext order' d fp rule accuracy alg = Inr (X', W')"
  proof -
    from h obtain xs ws where per: "radau_per_dim ext order' d points rule accuracy alg = Inr (xs, ws)"
      and X: "reshape_rows (len d) (transpose_T (length xs) (combine xs)) = Inr X'"
      and W: "W' = map prod_list (combine ws)"
      by (auto simp: quad_gauss_radau_def split: sum.splits)
    have "is_tensor_rule (zip xs ws) X' W'"
      if l: "length xs = len d" "length ws = len d" "map length xs = map length ws"
    proof -
      have "\<forall>row \<in> set (transpose_T (length xs) (combine xs)). length row = length (combine xs)"
        by (simp add: transpose_T_def)
      moreover have "length (transpose_T (length xs) (combine xs)) = len d"
        using l(1) by (simp add: transpose_T_def)
      ultimately have "reshape_rows (len d) (transpose_T (length xs) (combine xs))
                         = Inr (transpose_T (length xs) (combine xs))"
        using len_positive[of d] by (rule reshape_rows_id)
      with X have "X' = transpose_T (length xs) (combine xs)" by simp
      moreover have "length xs = length ws" using l by simp
      ultimately show ?thesis unfolding W using tensor_assembly l(3) by simp
    qed
    with per show ?thesis by blast
  qed
  from leja radau show ?thesis by blast
qed

lemma leja_example:
  "quad_leja example_ext (OrderSeq [PyInt 0, PyInt 1]) (Dist uniform01 [uniform01])
       = Inr ([[1 / 2, 1 / 2], [1 / 4, 1 / 2]], [0, 1])"
  "leja_per_dim example_ext (OrderSeq [PyInt 0, PyInt 1]) (Dist uniform01 [uniform01])
       = Inr [([[1 / 2]], [1]), ([[1 / 4, 1 / 2]], [0, 1])]"
  by (simp_all add: quad_leja_def leja_per_dim_def example_ext_simps upt_rec[of 0] upt_rec[of 1] upt_rec[of 2]
      upt_rec[of 3] quad_leja1_def leja_nodes_def uniform01_simps leja_step_def objective_def
      list_insert_def create_weights_def stieltjes_poly_def stieltjes_small_def column0_def
      first_row_def transpose_T_def)

lemma radau_per_dim_example:
  "radau_per_dim example_ext 1 (Dist uniform01 [uniform01]) [0, 0] ''F'' 100 []
     = Inr ([[0, 2 / 3], [0, 2 / 3]], [[1 / 4, 3 / 4], [1 / 4, 3 / 4]])"
  by (simp add: uniform01_simps radau_per_dim_def
      example_ext_simps recurrence_small_uniform01 heap_of_def upt_rec[of 0] upt_rec[of 1]
      upt_rec[of 2] radau_jakobi_def radau_system_def ndarray_copy_def set_last_alpha_def
      power2_eq_square sqrt_ninth)

text \<open>
  Leja with the orders 0 and 1, and Gauss-Radau of order 1, on two independent uniform
  distributions on \<open>[0, 1]\<close>.
\<close>

theorem tensor_product_rules_witness:
  "1 < len (Dist uniform01 [uniform01])
   \<and> quad_leja example_ext (OrderSeq [PyInt 0, PyInt 1]) (Dist uniform01 [uniform01])
       = Inr ([[1 / 2, 1 / 2], [1 / 4, 1 / 2]], [0, 1])
   \<and> leja_per_dim example_ext (OrderSeq [PyInt 0, PyInt 1]) (Dist uniform01 [uniform01])
       = Inr [([[1 / 2]], [1]), ([[1 / 4, 1 / 2]], [0, 1])]
   \<and> is_tensor_rule [([1 / 2], [1]), ([1 / 4, 1 / 2], [0, 1])] [[1 / 2, 1 / 2], [1 / 4, 1 / 2]] [0, 1]
   \<and> (1 :: int) \<noteq> 0
   \<and> resolve_fixed_point (Dist uniform01 [uniform01]) FPNone = Inr [0, 0]
   \<and> quad_gauss_radau example_ext 1 (Dist uniform01 [uniform01]) FPNone ''F'' 100 []
       = Inr ([[0, 0, 2 / 3, 2 / 3], [0, 2 / 3, 0, 2 / 3]], [1 / 16, 3 / 16, 3 / 16, 9 / 16])
   \<and> radau_per_dim example_ext 1 (Dist uniform01 [uniform01]) [0, 0] ''F'' 100 []
       = Inr ([[0, 2 / 3], [0, 2 / 3]], [[1 / 4, 3 / 4], [1 / 4, 3 / 4]])
   \<and> is_tensor_rule [([0, 2 / 3], [1 / 4, 3 / 4]), ([0, 2 / 3], [1 / 4, 3 / 4])]
        [[0, 0, 2 / 3, 2 / 3], [0, 2 / 3, 0, 2 / 3]] [1 / 16, 3 / 16, 3 / 16, 9 / 16]"
  using tensor_product_rules[where d = "Dist uniform01 [uniform01]" and ext = example_ext
      and order = "OrderSeq [PyInt 0, PyInt 1]" and X = "[[1 / 2, 1 / 2], [1 / 4, 1 / 2]]"
      and W = "[0, 1]" and order' = 1 and fp = FPNone and points = "[0, 0]" and rule = "''F''"
      and accuracy = 100 and alg = "[]"
      and X' = "[[0, 0, 2 / 3, 2 / 3], [0, 2 / 3, 0, 2 / 3]]"
      and W' = "[1 / 16, 3 / 16, 3 / 16, 9 / 16]"]
  by (simp add: leja_example radau_example radau_per_dim_example resolve_fixed_point_def
      uniform01_simps)

section \<open>The rule of the Gauss-Radau generator\<close>

subsection \<open>The fixed point is among the abscissas\<close>











subsection \<open>The weights\<close>








subsection \<open>A singular system that is not reported\<close>

text \<open>
  What the handler of lines 165 to 167 does when the solver raises \<^verbatim>\<open>LinAlgError\<close>: for a
  numpy scalar it raises the illegal-fixed-point error with the value of the scalar, for a
  Python \<^verbatim>\<open>float\<close> the call \<^verbatim>\<open>fixed_point.item()\<close> raises \<^verbatim>\<open>AttributeError\<close>.
\<close>

lemma radau_jakobi_solver_raises:
  assumes "radau_system (cells h coeffs) p = Inr (bands_j, right_hand_side)"
    and "solve_banded ext bands_j right_hand_side = Inl (LinAlgError err)"
  shows "radau_jakobi ext h coeffs (NpFloat p) = Inl (LinAlgError (IllegalRadauFixedPoint p))"
    and "radau_jakobi ext h coeffs (PyFloat p) = Inl AttributeError"
  using assms by (simp_all add: radau_jakobi_def)

lemma reshape_rows_one: "reshape_rows (Suc 0) [row] = Inr [row]"
  by (rule reshape_rows_id[where N = "length row"]) simp_all

lemma radau_system_uniform_m11:
  "radau_system ([0, 0], [1, 1 / 3]) 0 = Inr ([[1], [0], [sqrt (1 / 3)]], [1 / 3])"
  by (simp add: radau_system_def)

lemma singular_system_no_solution:
  "\<not> banded_solution [[1], [0], [sqrt (1 / 3)]] [1 / 3] delta"
proof
  assume sol: "banded_solution [[1], [0], [sqrt (1 / 3)]] [1 / 3] delta"
  then have "length delta = 1" by (simp add: banded_solution_def)
  then obtain x where "delta = [x]" by (cases delta) auto
  with sol show False by (simp add: banded_solution_def banded_row_def)
qed

text \<open>
  Claim C6 does not hold of the code. The uniform distribution on \<open>[-1, 1]\<close> at order 1
  with the fixed point 0 (which the docstring of the module gives as not allowed) leads to
  the system \<open>0 \<cdot> delta = 1/3\<close> of one unknown, which is singular and has no solution. The
  handler acts only when the solver raises \<^verbatim>\<open>LinAlgError\<close>, and for one unknown
  \<^verbatim>\<open>scipy.linalg.solve_banded\<close> divides and raises nothing: whatever value \<open>x\<close> it answers
  with, \<^verbatim>\<open>radau_jakobi\<close> returns coefficients whose last \<open>\<alpha>\<close> is \<open>0 + x\<close>, and no
  illegal-fixed-point error is raised, by \<^verbatim>\<open>radau_jakobi\<close> or by \<^verbatim>\<open>quad_gauss_radau\<close>. And
  when the solver does raise, a fixed point that is a Python \<^verbatim>\<open>float\<close> ends in
  \<^verbatim>\<open>AttributeError\<close>, not in the illegal-fixed-point error.
\<close>

theorem radau_jakobi_singular_not_reported:
  "radau_system (cells (heap_of [([0, 0], [1, 1 / 3])]) 0) (scalar_value (NpFloat 0))
     = Inr ([[1], [0], [sqrt (1 / 3)]], [1 / 3])
   \<and> (\<forall>delta. \<not> banded_solution [[1], [0], [sqrt (1 / 3)]] [1 / 3] delta)
   \<and> (\<forall>x. radau_jakobi (example_ext\<lparr>solve_banded := (\<lambda>ab b. Inr [x])\<rparr>)
              (heap_of [([0, 0], [1, 1 / 3])]) 0 (NpFloat 0)
            = Inr (\<lparr>cells = (cells (heap_of [([0, 0], [1, 1 / 3])]))(1 := ([0, 0 + x], [1, 1 / 3])),
                    next_ref = 2\<rparr>, 1))
   \<and> (\<exists>x. radau_jakobi example_ext (heap_of [([0, 0], [1, 1 / 3])]) 0 (NpFloat 0)
            = Inr (\<lparr>cells = (cells (heap_of [([0, 0], [1, 1 / 3])]))(1 := ([0, 0 + x], [1, 1 / 3])),
                    next_ref = 2\<rparr>, 1))
   \<and> radau_jakobi (example_ext\<lparr>solve_banded := (\<lambda>ab b. Inl (LinAlgError SingularMatrix))\<rparr>)
        (heap_of [([0, 0], [1, 1 / 3])]) 0 (PyFloat 0)
       = Inl AttributeError
   \<and> construct_recurrence_coefficients example_ext (2 * 1 - 1) (Dist uniform_m11 []) ''F'' 100 []
       = Inr [([0, 0], [1, 1 / 3])]
   \<and> (\<forall>x. quad_gauss_radau (example_ext\<lparr>solve_banded := (\<lambda>ab b. Inr [x])\<rparr>) 1
              (Dist uniform_m11 []) (FPScalar 0) ''F'' 100 []
            \<noteq> Inl (LinAlgError (IllegalRadauFixedPoint 0)))"
proof -
  have cell: "cells (heap_of [([0, 0], [1, 1 / 3])]) 0 = ([0, 0], [1, 1 / 3])"
    by (simp add: heap_of_def)
  have silent: "radau_jakobi (example_ext\<lparr>solve_banded := (\<lambda>ab b. Inr [x])\<rparr>)
              (heap_of [([0, 0], [1, 1 / 3])]) 0 (NpFloat 0)
            = Inr (\<lparr>cells = (cells (heap_of [([0, 0], [1, 1 / 3])]))(1 := ([0, 0 + x], [1, 1 / 3])),
                    next_ref = 2\<rparr>, 1)" for x
    by (simp add: radau_jakobi_def cell radau_system_uniform_m11 ndarray_copy_def
        set_last_alpha_def) (simp add: heap_of_def)
  have "solve_banded example_ext [[1], [0], [sqrt (1 / 3)]] [1 / 3] = Inr [(1 / 3) / 0]"
    by (simp add: example_ext_simps)
  then have "radau_jakobi example_ext (heap_of [([0, 0], [1, 1 / 3])]) 0 (NpFloat 0)
     = radau_jakobi (example_ext\<lparr>solve_banded := (\<lambda>ab b. Inr [(1 / 3) / 0])\<rparr>)
              (heap_of [([0, 0], [1, 1 / 3])]) 0 (NpFloat 0)"
    by (simp add: radau_jakobi_def cell radau_system_uniform_m11)
  with silent have dividing: "\<exists>x. radau_jakobi example_ext (heap_of [([0, 0], [1, 1 / 3])]) 0 (NpFloat 0)
            = Inr (\<lparr>cells = (cells (heap_of [([0, 0], [1, 1 / 3])]))(1 := ([0, 0 + x], [1, 1 / 3])),
                    next_ref = 2\<rparr>, 1)"
    by metis
  have attr: "radau_jakobi (example_ext\<lparr>solve_banded := (\<lambda>ab b. Inl (LinAlgError SingularMatrix))\<rparr>)
        (heap_of [([0, 0], [1, 1 / 3])]) 0 (PyFloat 0) = Inl AttributeError"
    by (rule radau_jakobi_solver_raises(2)[where err = SingularMatrix])
       (simp_all add: cell radau_system_uniform_m11)
  have quad: "quad_gauss_radau (example_ext\<lparr>solve_banded := (\<lambda>ab b. Inr [x])\<rparr>) 1
              (Dist uniform_m11 []) (FPScalar 0) ''F'' 100 []
            \<noteq> Inl (LinAlgError (IllegalRadauFixedPoint 0))" for x
    by (simp add: quad_gauss_radau_def resolve_fixed_point_def radau_per_dim_def
        example_ext_def recurrence_small_uniform_m11 heap_of_def radau_jakobi_def
        radau_system_def ndarray_copy_def set_last_alpha_def Let_def transpose_T_def
        reshape_rows_one upt_rec[of 0] upt_rec[of 1] split: sum.splits)
  have rec: "construct_recurrence_coefficients example_ext (2 * 1 - 1) (Dist uniform_m11 [])
               ''F'' 100 [] = Inr [([0, 0], [1, 1 / 3])]"
    by (simp add: example_ext_simps recurrence_small_uniform_m11)
  show ?thesis
    using silent dividing attr singular_system_no_solution quad rec
    by (simp add: cell radau_system_uniform_m11)
qed

end
